theory Spec2Isabelle
  imports Complex_Main "HOL-Library.AList"
begin

section \<open>Modelling conventions\<close>

text \<open>
  The development embeds the classes \<^verbatim>\<open>Memory\<close>, \<^verbatim>\<open>SimpleEmbedding\<close> and \<^verbatim>\<open>Mem0\<close>.

  \<^item> A JavaScript object used as a dictionary (\<^verbatim>\<open>freq\<close>, an embedding, a metadata bag) and the
    \<^verbatim>\<open>Map\<close> of memories are association lists with distinct keys in insertion order:
    assignment to a key is \<^const>\<open>AList.update\<close> (an existing key keeps its place, a new key goes
    to the end), \<^verbatim>\<open>Map.delete\<close> is \<^const>\<open>AList.delete\<close>.
  \<^item> JavaScript numbers are exact: counts and the id counter are natural numbers, weights and
    similarities are real numbers. Rounding of IEEE doubles is outside the model.
  \<^item> Keys are enumerated in insertion order; keys that look like array indices, which
    JavaScript enumerates first, are not treated specially. In exact arithmetic no result
    of the modelled operations depends on that order.
  \<^item> Text is a list of 8-bit characters; only ASCII letters have a lower case and only ASCII
    white space separates tokens. Tokens are assumed not to name a property inherited from
    \<^verbatim>\<open>Object.prototype\<close>.
  \<^item> The clock is an input: every operation that reads \<^verbatim>\<open>new Date()\<close> takes the current
    time in milliseconds as an argument.
  \<^item> A thrown exception is a value of type \<open>error\<close>; an operation that can throw
    returns its result together with the store as the throw left it.
\<close>

section \<open>SimpleEmbedding\<close>

type_synonym embedding = "(string \<times> real) list"

definition is_space :: "char \<Rightarrow> bool" where
  "is_space c = (c \<in> set [CHR '' '', CHR 0x09, CHR 0x0A, CHR 0x0B, CHR 0x0C, CHR 0x0D])"

definition is_word :: "char \<Rightarrow> bool" where
  "is_word c = (let n = (of_char c :: nat) in
     (97 \<le> n \<and> n \<le> 122) \<or> (65 \<le> n \<and> n \<le> 90) \<or> (48 \<le> n \<and> n \<le> 57) \<or> n = 95)"

definition toLowerCase :: "char \<Rightarrow> char" where
  "toLowerCase c = (let n = (of_char c :: nat) in
     if 65 \<le> n \<and> n \<le> 90 then char_of (n + 32) else c)"

text \<open>\<^verbatim>\<open>split(/\s+/)\<close>: the pieces between maximal runs of white space, empty pieces at the
  ends included.\<close>

function split_ws :: "string \<Rightarrow> string list" where
  "split_ws [] = [[]]"
| "split_ws (c # cs) =
     (if is_space c then [] # split_ws (dropWhile is_space cs)
      else (case split_ws cs of
              [] \<Rightarrow> [[c]]
            | t # ts \<Rightarrow> (c # t) # ts))"
  by pat_completeness auto
termination
  by (relation "measure length") (auto simp: length_dropWhile_le less_Suc_eq_le)

definition tokenize :: "string \<Rightarrow> string list" where
  "tokenize text =
     filter (\<lambda>word. length word > 0)
       (split_ws (filter (\<lambda>c. is_word c \<or> is_space c) (map toLowerCase text)))"

text \<open>\<^verbatim>\<open>freq[token] = (freq[token] || 0) + 1\<close>. In \<open>computeEmbedding\<close> the maximum of no
  counts is 0 where \<^verbatim>\<open>Math.max()\<close> is \<^verbatim>\<open>-Infinity\<close>; it is not used then, as there is no token
  to divide for.\<close>

definition count_token :: "string \<Rightarrow> (string \<times> nat) list \<Rightarrow> (string \<times> nat) list" where
  "count_token token freq =
     AList.update token ((case map_of freq token of None \<Rightarrow> 0 | Some n \<Rightarrow> n) + 1) freq"

definition computeEmbedding :: "string \<Rightarrow> embedding" where
  "computeEmbedding text =
     (let tokens = tokenize text;
          freq = fold count_token tokens [];
          maxFreq = fold max (map snd freq) 0
      in map (\<lambda>(token, n). (token, real n / real maxFreq)) freq)"

text \<open>\<^verbatim>\<open>new Set([...keys1, ...keys2])\<close>: first occurrences, in order.\<close>

fun key_set :: "string list \<Rightarrow> string list" where
  "key_set [] = []"
| "key_set (k # ks) = k # key_set (filter (\<lambda>x. x \<noteq> k) ks)"

text \<open>\<^verbatim>\<open>embedding[key] || 0\<close>\<close>

definition weight :: "embedding \<Rightarrow> string \<Rightarrow> real" where
  "weight e key = (case map_of e key of None \<Rightarrow> 0 | Some v \<Rightarrow> v)"

text \<open>The loop of \<^verbatim>\<open>cosineSimilarity\<close>: the accumulators are
  \<open>(dotProduct, norm1, norm2)\<close>.\<close>

definition cosine_step :: "embedding \<Rightarrow> embedding \<Rightarrow> string \<Rightarrow> real \<times> real \<times> real \<Rightarrow> real \<times> real \<times> real" where
  "cosine_step e1 e2 key acc =
     (case acc of (dotProduct, norm1, norm2) \<Rightarrow>
        (let val1 = weight e1 key; val2 = weight e2 key
         in (dotProduct + val1 * val2, norm1 + val1 * val1, norm2 + val2 * val2)))"

definition cosine_sums :: "embedding \<Rightarrow> embedding \<Rightarrow> real \<times> real \<times> real" where
  "cosine_sums e1 e2 =
     fold (cosine_step e1 e2) (key_set (map fst e1 @ map fst e2)) (0, 0, 0)"



definition cosineSimilarity :: "embedding \<Rightarrow> embedding \<Rightarrow> real" where
  "cosineSimilarity e1 e2 =
     (case cosine_sums e1 e2 of (dotProduct, norm1, norm2) \<Rightarrow>
        if norm1 = 0 \<or> norm2 = 0 then 0
        else dotProduct / (sqrt norm1 * sqrt norm2))"

section \<open>Memory\<close>

text \<open>Metadata values. \<open>JDate t\<close> is a string that \<^verbatim>\<open>new Date\<close> parses to the time \<open>t\<close> in
  milliseconds, such as the ISO-8601 string that \<^verbatim>\<open>toISOString\<close> prints for \<open>t\<close>; \<open>JStr\<close> is a
  string that \<^verbatim>\<open>new Date\<close> does not parse; \<open>JArr\<close> is an array of strings, as \<^verbatim>\<open>tags\<close> is,
  and is taken not to parse as a date either.\<close>

datatype jsval = JDate int | JStr string | JArr "string list"

type_synonym metadata = "(string \<times> jsval) list"

text \<open>Truthiness, as \<^verbatim>\<open>||\<close> tests it: only the empty string is falsy here.\<close>

fun truthy :: "jsval \<Rightarrow> bool" where
  "truthy (JStr s) = (s \<noteq> [])"
| "truthy _ = True"

text \<open>\<^verbatim>\<open>new Date(v).getTime()\<close> for a property that may be missing; \<open>None\<close> is \<^verbatim>\<open>NaN\<close>.\<close>

fun getTime :: "jsval option \<Rightarrow> int option" where
  "getTime (Some (JDate t)) = Some t"
| "getTime _ = None"

text \<open>Object spread \<^verbatim>\<open>{ ...a, ...b }\<close>.\<close>

definition spread :: "('k \<times> 'v) list \<Rightarrow> ('k \<times> 'v) list \<Rightarrow> ('k \<times> 'v) list" where
  "spread a b = fold (\<lambda>(k, v). AList.update k v) b a"

record memory =
  mem_id :: string
  content :: string
  metadata :: metadata
  embeddings :: "embedding option"
  tags :: jsval

definition tags_or_empty :: "jsval option \<Rightarrow> jsval" where
  "tags_or_empty v = (case v of None \<Rightarrow> JArr [] | Some t \<Rightarrow> if truthy t then t else JArr [])"

definition Memory :: "string \<Rightarrow> string \<Rightarrow> metadata \<Rightarrow> int \<Rightarrow> memory" where
  "Memory i c md now =
     \<lparr> mem_id = i, content = c,
       metadata = spread [(''timestamp'', JDate now)] md,
       embeddings = None,
       tags = tags_or_empty (map_of md ''tags'') \<rparr>"

definition updateContent :: "string \<Rightarrow> int \<Rightarrow> memory \<Rightarrow> memory" where
  "updateContent newContent now m =
     m\<lparr> content := newContent,
        metadata := AList.update ''lastUpdated'' (JDate now) (metadata m),
        embeddings := None \<rparr>"

section \<open>Mem0\<close>

datatype error = TypeError | NotFound string

record config =
  maxMemories :: int
  similarityThreshold :: real
  autoExpire :: bool
  expireAfterDays :: int

text \<open>A configuration object in which any property may be missing.\<close>

record config_opts =
  opt_maxMemories :: "int option"
  opt_similarityThreshold :: "real option"
  opt_autoExpire :: "bool option"
  opt_expireAfterDays :: "int option"

record store =
  memories :: "(string \<times> memory) list"
  config :: config
  nextId :: nat

text \<open>\<^verbatim>\<open>x || d\<close> on a number that may be missing.\<close>

definition num_or :: "'a::zero option \<Rightarrow> 'a \<Rightarrow> 'a" where
  "num_or x d = (case x of None \<Rightarrow> d | Some v \<Rightarrow> if v = 0 then d else v)"

definition Mem0 :: "config_opts \<Rightarrow> store" where
  "Mem0 c =
     \<lparr> memories = [],
       config = \<lparr> maxMemories = num_or (opt_maxMemories c) 1000,
                  similarityThreshold = num_or (opt_similarityThreshold c) (7 / 10),
                  autoExpire = (case opt_autoExpire c of None \<Rightarrow> False | Some b \<Rightarrow> b),
                  expireAfterDays = num_or (opt_expireAfterDays c) 30 \<rparr>,
       nextId = 1 \<rparr>"

text \<open>A search result. \<open>res_key\<close> is the key under which the \<^verbatim>\<open>Map\<close> holds the object that
  \<^verbatim>\<open>memory\<close> refers to; the property \<^verbatim>\<open>id\<close> of the result is \<open>mem_id (res_memory r)\<close>.\<close>

record search_result =
  res_key :: string
  res_memory :: memory
  similarity :: real

text \<open>The loop of \<^verbatim>\<open>search\<close>. \<^verbatim>\<open>Object.keys(null)\<close> throws a \<^verbatim>\<open>TypeError\<close>.\<close>

fun search_loop :: "embedding \<Rightarrow> (string \<times> memory) list \<Rightarrow> search_result list \<Rightarrow> error + search_result list" where
  "search_loop q [] results = Inr results"
| "search_loop q ((k, m) # ms) results =
     (case embeddings m of
        None \<Rightarrow> Inl TypeError
      | Some e \<Rightarrow>
          (let sim = cosineSimilarity q e
           in if sim > 0
              then search_loop q ms (results @ [\<lparr> res_key = k, res_memory = m, similarity = sim \<rparr>])
              else search_loop q ms results))"

definition search :: "string \<Rightarrow> nat \<Rightarrow> store \<Rightarrow> error + search_result list" where
  "search query limit s =
     (case search_loop (computeEmbedding query) (memories s) [] of
        Inl e \<Rightarrow> Inl e
      | Inr results \<Rightarrow> Inr (take limit (sort_key (\<lambda>r. - similarity r) results)))"

definition findSimilar :: "string \<Rightarrow> nat \<Rightarrow> store \<Rightarrow> error + search_result list" where
  "findSimilar c limit s = search c limit s"

text \<open>The loop of \<^verbatim>\<open>evictOldest\<close>: the accumulators are \<open>(oldestId, oldestTime)\<close>, with
  \<open>None\<close> for \<^verbatim>\<open>null\<close> and for \<^verbatim>\<open>Infinity\<close>.\<close>

definition older :: "int option \<Rightarrow> int option \<Rightarrow> bool" where
  "older time oldestTime =
     (case time of None \<Rightarrow> False
      | Some t \<Rightarrow> (case oldestTime of None \<Rightarrow> True | Some t' \<Rightarrow> t < t'))"

fun oldest_loop :: "(string \<times> memory) list \<Rightarrow> string option \<times> int option \<Rightarrow> string option \<times> int option" where
  "oldest_loop [] acc = acc"
| "oldest_loop ((k, m) # ms) (oldestId, oldestTime) =
     (let time = getTime (map_of (metadata m) ''timestamp'')
      in if older time oldestTime then oldest_loop ms (Some k, time)
         else oldest_loop ms (oldestId, oldestTime))"

definition evictOldest :: "store \<Rightarrow> store" where
  "evictOldest s =
     (case fst (oldest_loop (memories s) (None, None)) of
        None \<Rightarrow> s
      | Some oldestId \<Rightarrow>
          if oldestId \<noteq> [] then s\<lparr> memories := AList.delete oldestId (memories s) \<rparr> else s)"

text \<open>Decimal digits of the id counter, for \<^verbatim>\<open>`mem_${this.nextId++}`\<close>.\<close>

fun string_of_nat :: "nat \<Rightarrow> string" where
  "string_of_nat n =
     (if n < 10 then [char_of (48 + n)]
      else string_of_nat (n div 10) @ [char_of (48 + n mod 10)])"

declare string_of_nat.simps [simp del]

definition add :: "string \<Rightarrow> metadata \<Rightarrow> int \<Rightarrow> store \<Rightarrow> (error + string) \<times> store" where
  "add c md now s =
     (let new_id = ''mem_'' @ string_of_nat (nextId s);
          s1 = s\<lparr> nextId := nextId s + 1 \<rparr>;
          new_memory = (Memory new_id c md now)\<lparr> embeddings := Some (computeEmbedding c) \<rparr>
      in case findSimilar c 1 s1 of
           Inl e \<Rightarrow> (Inl e, s1)
         | Inr similar \<Rightarrow>
             if similar \<noteq> [] \<and> similarity (hd similar) > similarityThreshold (config s1)
             then
               (let existingKey = res_key (hd similar);
                    existingMemory = updateContent c now (res_memory (hd similar));
                    merged = existingMemory\<lparr> metadata := spread (metadata existingMemory) md \<rparr>
                in (Inr (mem_id merged),
                    s1\<lparr> memories := AList.update existingKey merged (memories s1) \<rparr>))
             else
               (let s2 = s1\<lparr> memories := AList.update new_id new_memory (memories s1) \<rparr>;
                    s3 = (if int (length (memories s2)) > maxMemories (config s2)
                          then evictOldest s2 else s2)
                in (Inr new_id, s3)))"

definition get :: "string \<Rightarrow> store \<Rightarrow> memory option" where
  "get i s = map_of (memories s) i"

definition update :: "string \<Rightarrow> string \<Rightarrow> metadata \<Rightarrow> int \<Rightarrow> store \<Rightarrow> (error + memory) \<times> store" where
  "update i c md now s =
     (case map_of (memories s) i of
        None \<Rightarrow> (Inl (NotFound i), s)
      | Some m \<Rightarrow>
          (let m1 = updateContent c now m;
               m2 = m1\<lparr> metadata := spread (metadata m1) md \<rparr>;
               m3 = m2\<lparr> embeddings := Some (computeEmbedding c) \<rparr>
           in (Inr m3, s\<lparr> memories := AList.update i m3 (memories s) \<rparr>)))"

definition delete :: "string \<Rightarrow> store \<Rightarrow> bool \<times> store" where
  "delete i s = (i \<in> set (map fst (memories s)), s\<lparr> memories := AList.delete i (memories s) \<rparr>)"

definition clear :: "store \<Rightarrow> store" where
  "clear s = s\<lparr> memories := [], nextId := 1 \<rparr>"

text \<open>The parsed snapshot. \<^verbatim>\<open>JSON.parse\<close> throws on \<open>Unparseable\<close>, returns \<^verbatim>\<open>null\<close> on
  \<open>JsonNull\<close> and an object otherwise; a property of that object that is missing, or
  \<^verbatim>\<open>memories\<close> that cannot be iterated, is \<open>None\<close>. \<^verbatim>\<open>JSON.stringify\<close> followed by
  \<^verbatim>\<open>JSON.parse\<close> is the identity on the values of the model.\<close>

record snapshot_body =
  snap_memories :: "(string \<times> memory) list option"
  snap_config :: config_opts
  snap_nextId :: "nat option"
  exportDate :: int

datatype snapshot = Unparseable | JsonNull | JsonObject snapshot_body

definition export :: "int \<Rightarrow> store \<Rightarrow> snapshot" where
  "export now s =
     JsonObject
       \<lparr> snap_memories = Some (memories s),
         snap_config = \<lparr> opt_maxMemories = Some (maxMemories (config s)),
                          opt_similarityThreshold = Some (similarityThreshold (config s)),
                          opt_autoExpire = Some (autoExpire (config s)),
                          opt_expireAfterDays = Some (expireAfterDays (config s)) \<rparr>,
         snap_nextId = Some (nextId s),
         exportDate = now \<rparr>"

text \<open>\<^verbatim>\<open>{ ...this.config, ...data.config }\<close>\<close>

definition spread_config :: "config \<Rightarrow> config_opts \<Rightarrow> config" where
  "spread_config c d =
     \<lparr> maxMemories = (case opt_maxMemories d of None \<Rightarrow> maxMemories c | Some v \<Rightarrow> v),
       similarityThreshold =
         (case opt_similarityThreshold d of None \<Rightarrow> similarityThreshold c | Some v \<Rightarrow> v),
       autoExpire = (case opt_autoExpire d of None \<Rightarrow> autoExpire c | Some v \<Rightarrow> v),
       expireAfterDays = (case opt_expireAfterDays d of None \<Rightarrow> expireAfterDays c | Some v \<Rightarrow> v) \<rparr>"

text \<open>The body of the loop of \<^verbatim>\<open>import\<close>.\<close>

definition import_entry :: "int \<Rightarrow> string \<times> memory \<Rightarrow> (string \<times> memory) list \<Rightarrow> (string \<times> memory) list" where
  "import_entry now entry ms =
     (case entry of (i, memoryData) \<Rightarrow>
        AList.update i
          ((Memory (mem_id memoryData) (content memoryData) (metadata memoryData) now)
             \<lparr> embeddings := embeddings memoryData,
               tags := tags_or_empty (Some (tags memoryData)) \<rparr>)
          ms)"

definition import :: "snapshot \<Rightarrow> int \<Rightarrow> store \<Rightarrow> bool \<times> store" where
  "import jsonData now s =
     (case jsonData of
        Unparseable \<Rightarrow> (False, s)
      | JsonNull \<Rightarrow> (False, s\<lparr> memories := [] \<rparr>)
      | JsonObject data \<Rightarrow>
          (let s1 = s\<lparr> memories := [],
                       config := spread_config (config s) (snap_config data),
                       nextId := num_or (snap_nextId data) 1 \<rparr>
           in case snap_memories data of
                None \<Rightarrow> (False, s1)
              | Some entries \<Rightarrow>
                  (True, s1\<lparr> memories := fold (import_entry now) entries [] \<rparr>)))"

text \<open>The expiry sweep. The cut-off is \<open>expireAfterDays\<close> days of 24 hours before \<open>now\<close>;
  a comparison with \<^verbatim>\<open>NaN\<close> is false.\<close>

definition expired :: "int \<Rightarrow> memory \<Rightarrow> bool" where
  "expired cutoff m =
     (case getTime (map_of (metadata m) ''timestamp'') of None \<Rightarrow> False | Some t \<Rightarrow> t < cutoff)"

definition cleanupExpired :: "int \<Rightarrow> store \<Rightarrow> store" where
  "cleanupExpired now s =
     (if \<not> autoExpire (config s) then s
      else (let cutoff = now - expireAfterDays (config s) * 86400000
            in s\<lparr> memories := filter (\<lambda>(i, m). \<not> expired cutoff m) (memories s) \<rparr>))"

section \<open>Sequences of operations\<close>

datatype operation =
    Add string metadata int
  | Update string string metadata int
  | Delete string
  | Clear
  | Import snapshot int
  | Sweep int

fun apply_op :: "operation \<Rightarrow> store \<Rightarrow> store" where
  "apply_op (Add c md now) s = snd (add c md now s)"
| "apply_op (Update i c md now) s = snd (update i c md now s)"
| "apply_op (Delete i) s = snd (delete i s)"
| "apply_op Clear s = clear s"
| "apply_op (Import j now) s = snd (import j now s)"
| "apply_op (Sweep now) s = cleanupExpired now s"

definition run :: "operation list \<Rightarrow> store \<Rightarrow> store" where
  "run ops s = fold apply_op ops s"

section \<open>Predicates used in the properties\<close>

text \<open>A configuration object with no property set: the store takes every default.\<close>

definition no_opts :: config_opts where
  "no_opts = \<lparr> opt_maxMemories = None, opt_similarityThreshold = None,
               opt_autoExpire = None, opt_expireAfterDays = None \<rparr>"

text \<open>A configuration object that sets \<^verbatim>\<open>maxMemories\<close> only.\<close>

definition limit_opts :: "int \<Rightarrow> config_opts" where
  "limit_opts n = \<lparr> opt_maxMemories = Some n, opt_similarityThreshold = None,
                    opt_autoExpire = None, opt_expireAfterDays = None \<rparr>"


text \<open>A record's vector is absent or is the vectorization of its content.\<close>

definition vector_fresh :: "memory \<Rightarrow> bool" where
  "vector_fresh m = (case embeddings m of None \<Rightarrow> True | Some e \<Rightarrow> e = computeEmbedding (content m))"

definition vectors_fresh :: "store \<Rightarrow> bool" where
  "vectors_fresh s = list_all (\<lambda>(k, m). vector_fresh m) (memories s)"

definition snapshot_fresh :: "snapshot \<Rightarrow> bool" where
  "snapshot_fresh j =
     (case j of
        JsonObject data \<Rightarrow>
          (case snap_memories data of
             None \<Rightarrow> True
           | Some entries \<Rightarrow> list_all (\<lambda>(k, m). vector_fresh m) entries)
      | _ \<Rightarrow> True)"

fun op_fresh :: "operation \<Rightarrow> bool" where
  "op_fresh (Import j now) = snapshot_fresh j"
| "op_fresh _ = True"








section \<open>Evaluation of the operations on small stores\<close>

lemma string_of_nat_small:
  "string_of_nat (Suc 0) = ''1''" "string_of_nat 1 = ''1''"
  "string_of_nat 2 = ''2''" "string_of_nat 3 = ''3''"
  by code_simp+

lemma computeEmbedding_pizza: "computeEmbedding ''pizza'' = [(''pizza'', 1)]"
  by code_simp

lemma computeEmbedding_rocket: "computeEmbedding ''rocket'' = [(''rocket'', 1)]"
  by code_simp

lemma cosine_pizza_pizza: "cosineSimilarity [(''pizza'', 1)] [(''pizza'', 1)] = 1"
  by (simp add: cosineSimilarity_def cosine_sums_def cosine_step_def weight_def)

lemma cosine_rocket_pizza: "cosineSimilarity [(''rocket'', 1)] [(''pizza'', 1)] = 0"
  by (simp add: cosineSimilarity_def cosine_sums_def cosine_step_def weight_def)

lemmas eval_defs =
  add_def findSimilar_def search_def Memory_def spread_def tags_or_empty_def Let_def
  updateContent_def string_of_nat_small computeEmbedding_pizza computeEmbedding_rocket
  cosine_pizza_pizza cosine_rocket_pizza

text \<open>\<^verbatim>\<open>add('pizza')\<close> on a new store creates \<^verbatim>\<open>mem_1\<close> with its vector.\<close>

lemma add_pizza_first:
  "add ''pizza'' [] 0 (Mem0 no_opts) =
     (Inr ''mem_1'',
      \<lparr> memories =
          [(''mem_1'', \<lparr> mem_id = ''mem_1'', content = ''pizza'',
                         metadata = [(''timestamp'', JDate 0)],
                         embeddings = Some [(''pizza'', 1)], tags = JArr [] \<rparr>)],
        config = \<lparr> maxMemories = 1000, similarityThreshold = 7 / 10,
                   autoExpire = False, expireAfterDays = 30 \<rparr>,
        nextId = 2 \<rparr>)"
  by (simp add: eval_defs Mem0_def no_opts_def num_or_def)

text \<open>A second \<^verbatim>\<open>add('pizza')\<close> merges into \<^verbatim>\<open>mem_1\<close> and leaves its vector \<^verbatim>\<open>null\<close>.\<close>

lemma add_pizza_second:
  "add ''pizza'' [] 1 (snd (add ''pizza'' [] 0 (Mem0 no_opts))) =
     (Inr ''mem_1'',
      \<lparr> memories =
          [(''mem_1'', \<lparr> mem_id = ''mem_1'', content = ''pizza'',
                         metadata = [(''timestamp'', JDate 0), (''lastUpdated'', JDate 1)],
                         embeddings = None, tags = JArr [] \<rparr>)],
        config = \<lparr> maxMemories = 1000, similarityThreshold = 7 / 10,
                   autoExpire = False, expireAfterDays = 30 \<rparr>,
        nextId = 3 \<rparr>)"
  apply (simp only: add_pizza_first snd_conv)
  apply (simp add: eval_defs)
  done

section \<open>Basic facts about the operations\<close>


lemma evictOldest_config: "config (evictOldest s) = config s"
  by (simp add: evictOldest_def split: option.splits)

lemma run_Cons: "run (x # ops) s = run ops (apply_op x s)"
  by (simp add: run_def)

lemma run_Nil: "run [] s = s"
  by (simp add: run_def)

lemma run_append: "run (ops @ ops') s = run ops' (run ops s)"
  by (simp add: run_def)

text \<open>Object spread looks a key up in the right operand first.\<close>

lemma map_of_fold_update:
  "map_of (fold (\<lambda>(k, v). AList.update k v) b a) = map_of a ++ map_of (rev b)"
  by (induction b arbitrary: a)
     (auto simp: update_conv' map_add_def fun_eq_iff split: option.splits)

lemma map_of_rev_distinct: "distinct (map fst b) \<Longrightarrow> map_of (rev b) = map_of b"
  by (induction b)
     (auto simp: map_add_def fun_eq_iff map_of_eq_None_iff[symmetric] split: option.splits)

lemma map_of_spread:
  "distinct (map fst b) \<Longrightarrow>
   map_of (spread a b) k = (case map_of b k of None \<Rightarrow> map_of a k | Some v \<Rightarrow> Some v)"
  by (simp add: spread_def map_of_fold_update map_of_rev_distinct map_add_def)



section \<open>The id counter\<close>


section \<open>Merging on add\<close>

text \<open>What the merge branch of \<^verbatim>\<open>add\<close> does when the best match exceeds the threshold: the
  number of records stays, the content is replaced, \<^verbatim>\<open>lastUpdated\<close> is stamped, the new
  metadata is spread over the old, the id of the existing record is returned, and the vector
  is left \<^verbatim>\<open>null\<close>.\<close>

lemma add_merge_branch:
  assumes "findSimilar c 1 (s\<lparr> nextId := nextId s + 1 \<rparr>) = Inr (r # rs)"
    and "similarity r > similarityThreshold (config s)"
  shows "add c md now s =
     (Inr (mem_id (res_memory r)),
      s\<lparr> nextId := nextId s + 1,
         memories := AList.update (res_key r)
           ((res_memory r)\<lparr> content := c,
               embeddings := None,
               metadata := spread (AList.update ''lastUpdated'' (JDate now)
                                     (metadata (res_memory r))) md \<rparr>)
           (memories s) \<rparr>)"
  using assms by (simp add: add_def Let_def updateContent_def)

text \<open>
  C1. When the best match exceeds the merge threshold, \<^verbatim>\<open>add\<close> creates no record, replaces the
  content, merges the metadata and returns the existing id, but it does not compute the
  vector again: \<^verbatim>\<open>updateContent\<close> resets it to \<^verbatim>\<open>null\<close> and the merge branch returns at once.
  After \<^verbatim>\<open>add('pizza')\<close> twice on a new store, \<^verbatim>\<open>mem_1\<close> had the vector of \<^verbatim>\<open>'pizza'\<close> and has
  none afterwards.
\<close>

theorem add_merge_drops_vector:
  "fst (add ''pizza'' [] 1 (snd (add ''pizza'' [] 0 (Mem0 no_opts)))) = Inr ''mem_1'' \<and>
   map_option embeddings (get ''mem_1'' (snd (add ''pizza'' [] 0 (Mem0 no_opts))))
     = Some (Some (computeEmbedding ''pizza'')) \<and>
   map_option embeddings
     (get ''mem_1'' (snd (add ''pizza'' [] 1 (snd (add ''pizza'' [] 0 (Mem0 no_opts))))))
     = Some None"
proof -
  have "map_option embeddings (get ''mem_1'' (snd (add ''pizza'' [] 0 (Mem0 no_opts))))
     = Some (Some (computeEmbedding ''pizza''))"
    by (simp only: add_pizza_first snd_conv) (simp add: get_def computeEmbedding_pizza)
  moreover have "fst (add ''pizza'' [] 1 (snd (add ''pizza'' [] 0 (Mem0 no_opts)))) = Inr ''mem_1''"
    by (simp only: add_pizza_second fst_conv)
  moreover have "map_option embeddings
      (get ''mem_1'' (snd (add ''pizza'' [] 1 (snd (add ''pizza'' [] 0 (Mem0 no_opts))))))
      = Some None"
    by (simp only: add_pizza_second snd_conv) (simp add: get_def)
  ultimately show ?thesis by blast
qed

section \<open>Search on a reachable store\<close>

text \<open>
  C4. \<^verbatim>\<open>search\<close> is not total on the reachable stores: after \<^verbatim>\<open>add('pizza')\<close> twice the record
  \<^verbatim>\<open>mem_1\<close> has no vector, \<^verbatim>\<open>cosineSimilarity\<close> is called with \<^verbatim>\<open>null\<close>, and \<^verbatim>\<open>search\<close> throws
  a \<^verbatim>\<open>TypeError\<close>; so does the next \<^verbatim>\<open>add\<close>, which searches first.
\<close>

theorem search_throws_after_merge:
  "search ''pizza'' 10 (run [Add ''pizza'' [] 0, Add ''pizza'' [] 1] (Mem0 no_opts))
     = Inl TypeError \<and>
   fst (add ''rocket'' [] 2 (run [Add ''pizza'' [] 0, Add ''pizza'' [] 1] (Mem0 no_opts)))
     = Inl TypeError"
  apply (simp only: run_Cons run_Nil apply_op.simps add_pizza_second snd_conv)
  apply (simp add: search_def add_def findSimilar_def Let_def)
  done

section \<open>Update and delete\<close>

text \<open>
  C9. \<^verbatim>\<open>update(id, content, metadata)\<close> throws exactly when no record is stored under the id,
  and then changes nothing. Otherwise it replaces the content, stamps \<^verbatim>\<open>lastUpdated\<close>, spreads
  the new metadata over the old (a key of the new metadata wins), computes the vector of the
  new content, and touches no other record and no key: there is no search for duplicates.
  \<^verbatim>\<open>delete(id)\<close> returns true exactly when a record was stored under the id, never throws,
  leaves every other record, and a \<^verbatim>\<open>get\<close> of the id afterwards finds nothing.
\<close>

theorem update_delete_spec:
  "(fst (update i c md now s) = Inl (NotFound i)) = (get i s = None) \<and>
   (get i s = None \<longrightarrow> update i c md now s = (Inl (NotFound i), s)) \<and>
   (\<forall>m. get i s = Some m \<longrightarrow>
      (let m' = m\<lparr> content := c,
                    metadata := spread (AList.update ''lastUpdated'' (JDate now) (metadata m)) md,
                    embeddings := Some (computeEmbedding c) \<rparr>
       in update i c md now s = (Inr m', s\<lparr> memories := AList.update i m' (memories s) \<rparr>) \<and>
          get i (snd (update i c md now s)) = Some m' \<and>
          map fst (memories (snd (update i c md now s))) = map fst (memories s) \<and>
          (\<forall>j. j \<noteq> i \<longrightarrow> get j (snd (update i c md now s)) = get j s) \<and>
          (distinct (map fst md) \<longrightarrow>
             (\<forall>k. map_of (metadata m') k =
                (case map_of md k of
                   Some v \<Rightarrow> Some v
                 | None \<Rightarrow> if k = ''lastUpdated'' then Some (JDate now) else map_of (metadata m) k))))) \<and>
   fst (delete i s) = (get i s \<noteq> None) \<and>
   get i (snd (delete i s)) = None \<and>
   (\<forall>j. j \<noteq> i \<longrightarrow> get j (snd (delete i s)) = get j s) \<and>
   (get i s = None \<longrightarrow> snd (delete i s) = s)"
proof -
  have del: "fst (delete i s) = (get i s \<noteq> None) \<and>
     get i (snd (delete i s)) = None \<and>
     (\<forall>j. j \<noteq> i \<longrightarrow> get j (snd (delete i s)) = get j s) \<and>
     (get i s = None \<longrightarrow> snd (delete i s) = s)"
    by (auto simp: delete_def get_def delete_conv' map_of_eq_None_iff delete_id)
  show ?thesis
  proof (cases "map_of (memories s) i")
    case None
    with del show ?thesis by (simp add: update_def get_def)
  next
    case (Some m)
    then have "i \<in> fst ` set (memories s)"
      by (metis domI dom_map_of_conv_image_fst)
    then have keys: "map fst (AList.update i v (memories s)) = map fst (memories s)" for v
      by (simp add: update_keys)
    have upd: "update i c md now s =
        (Inr (m\<lparr> content := c,
                 metadata := spread (AList.update ''lastUpdated'' (JDate now) (metadata m)) md,
                 embeddings := Some (computeEmbedding c) \<rparr>),
         s\<lparr> memories := AList.update i
             (m\<lparr> content := c,
                 metadata := spread (AList.update ''lastUpdated'' (JDate now) (metadata m)) md,
                 embeddings := Some (computeEmbedding c) \<rparr>) (memories s) \<rparr>)"
      using Some by (simp add: update_def Let_def updateContent_def)
    have look: "distinct (map fst md) \<Longrightarrow>
        map_of (spread (AList.update ''lastUpdated'' (JDate now) (metadata m)) md) k =
          (case map_of md k of
             Some v \<Rightarrow> Some v
           | None \<Rightarrow> if k = ''lastUpdated'' then Some (JDate now) else map_of (metadata m) k)" for k
      by (simp add: map_of_spread update_conv' split: option.splits)
    from Some del keys look show ?thesis
      unfolding upd by (simp add: get_def Let_def update_conv')
  qed
qed

text \<open>The theorem at an id that exists and at one that does not.\<close>

theorem update_delete_spec_witness:
  "get ''mem_1'' (snd (add ''pizza'' [] 0 (Mem0 no_opts))) \<noteq> None \<and>
   fst (update ''mem_1'' ''rocket'' [(''k'', JStr ''v'')] 5 (snd (add ''pizza'' [] 0 (Mem0 no_opts))))
     \<noteq> Inl (NotFound ''mem_1'') \<and>
   map_option content
     (get ''mem_1'' (snd (update ''mem_1'' ''rocket'' [(''k'', JStr ''v'')] 5
        (snd (add ''pizza'' [] 0 (Mem0 no_opts)))))) = Some ''rocket'' \<and>
   get ''mem_9'' (snd (add ''pizza'' [] 0 (Mem0 no_opts))) = None \<and>
   fst (update ''mem_9'' ''rocket'' [] 5 (snd (add ''pizza'' [] 0 (Mem0 no_opts))))
     = Inl (NotFound ''mem_9'') \<and>
   fst (delete ''mem_1'' (snd (add ''pizza'' [] 0 (Mem0 no_opts)))) \<and>
   \<not> fst (delete ''mem_9'' (snd (add ''pizza'' [] 0 (Mem0 no_opts)))) \<and>
   get ''mem_1'' (snd (delete ''mem_1'' (snd (add ''pizza'' [] 0 (Mem0 no_opts))))) = None"
  using update_delete_spec [of "''mem_1''" "''rocket''" "[(''k'', JStr ''v'')]" 5
          "snd (add ''pizza'' [] 0 (Mem0 no_opts))"]
        update_delete_spec [of "''mem_9''" "''rocket''" "[]" 5
          "snd (add ''pizza'' [] 0 (Mem0 no_opts))"]
  apply (simp only: add_pizza_first snd_conv)
  apply (simp add: get_def Let_def)
  done

section \<open>Failure of import\<close>




section \<open>Freshness of the cached vectors\<close>

lemma list_all_update:
  "P (k, v) \<Longrightarrow> list_all P al \<Longrightarrow> list_all P (AList.update k v al)"
  by (induction al) auto

lemma list_all_delete: "list_all P al \<Longrightarrow> list_all P (AList.delete k al)"
  by (induction al) auto

lemma evictOldest_fresh: "vectors_fresh s \<Longrightarrow> vectors_fresh (evictOldest s)"
  by (simp add: evictOldest_def vectors_fresh_def list_all_delete split: option.splits)

lemma add_fresh: "vectors_fresh s \<Longrightarrow> vectors_fresh (snd (add c md now s))"
proof -
  assume fresh: "vectors_fresh s"
  let ?s1 = "s\<lparr> nextId := nextId s + 1 \<rparr>"
  show ?thesis
  proof (cases "findSimilar c 1 ?s1")
    case (Inl e)
    with fresh show ?thesis by (simp add: add_def Let_def vectors_fresh_def)
  next
    case (Inr similar)
    show ?thesis
    proof (cases "similar \<noteq> [] \<and> similarity (hd similar) > similarityThreshold (config s)")
      case True
      with Inr fresh show ?thesis
        by (simp add: add_def Let_def vectors_fresh_def list_all_update vector_fresh_def
            updateContent_def)
    next
      case False
      have "vectors_fresh (s\<lparr> nextId := nextId s + 1,
          memories := AList.update k
            ((Memory k c md now)\<lparr> embeddings := Some (computeEmbedding c) \<rparr>) (memories s) \<rparr>)" for k
        using fresh by (simp add: vectors_fresh_def list_all_update vector_fresh_def Memory_def)
      with Inr False show ?thesis
        by (auto simp: add_def Let_def evictOldest_fresh)
    qed
  qed
qed

lemma update_fresh: "vectors_fresh s \<Longrightarrow> vectors_fresh (snd (update i c md now s))"
  by (simp add: update_def Let_def vectors_fresh_def list_all_update vector_fresh_def
      updateContent_def split: option.splits)

lemma delete_fresh: "vectors_fresh s \<Longrightarrow> vectors_fresh (snd (delete i s))"
  by (simp add: delete_def vectors_fresh_def list_all_delete)

lemma clear_fresh: "vectors_fresh (clear s)"
  by (simp add: clear_def vectors_fresh_def)

lemma cleanupExpired_fresh: "vectors_fresh s \<Longrightarrow> vectors_fresh (cleanupExpired now s)"
  by (simp add: cleanupExpired_def vectors_fresh_def Let_def list_all_iff)

lemma import_entries_fresh:
  "list_all (\<lambda>(k, m). vector_fresh m) entries \<Longrightarrow> list_all (\<lambda>(k, m). vector_fresh m) acc \<Longrightarrow>
   list_all (\<lambda>(k, m). vector_fresh m) (fold (import_entry now) entries acc)"
proof (induction entries arbitrary: acc)
  case Nil
  then show ?case by simp
next
  case (Cons e es)
  obtain i d where e: "e = (i, d)" by (cases e)
  from Cons.prems have "vector_fresh d" by (simp add: e)
  then have "vector_fresh ((Memory (mem_id d) (content d) (metadata d) now)
             \<lparr> embeddings := embeddings d, tags := tags_or_empty (Some (tags d)) \<rparr>)"
    by (simp add: vector_fresh_def Memory_def split: option.splits)
  then have "list_all (\<lambda>(k, m). vector_fresh m) (import_entry now e acc)"
    using Cons.prems(2)
    by (simp add: e import_entry_def list_all_update)
  with Cons show ?case by simp
qed

lemma import_fresh:
  "snapshot_fresh j \<Longrightarrow> vectors_fresh s \<Longrightarrow> vectors_fresh (snd (import j now s))"
  by (cases j)
     (auto simp: import_def Let_def vectors_fresh_def snapshot_fresh_def import_entries_fresh
           split: option.splits)

lemma apply_op_fresh: "op_fresh x \<Longrightarrow> vectors_fresh s \<Longrightarrow> vectors_fresh (apply_op x s)"
  by (cases x)
     (simp_all add: add_fresh update_fresh delete_fresh clear_fresh import_fresh
        cleanupExpired_fresh)

lemma run_fresh: "list_all op_fresh ops \<Longrightarrow> vectors_fresh s \<Longrightarrow> vectors_fresh (run ops s)"
  by (induction ops arbitrary: s) (simp_all add: run_def apply_op_fresh)

lemma export_fresh: "vectors_fresh s \<Longrightarrow> snapshot_fresh (export now s)"
  by (simp add: export_def snapshot_fresh_def vectors_fresh_def)

lemma Mem0_fresh: "vectors_fresh (Mem0 c)"
  by (simp add: Mem0_def vectors_fresh_def)

text \<open>
  C3, as stated, fails: \<^verbatim>\<open>import\<close> copies \<^verbatim>\<open>memoryData.embeddings\<close> into the record without
  looking at the content, so a snapshot that pairs the content \<^verbatim>\<open>'pizza'\<close> with the vector of
  \<^verbatim>\<open>'rocket'\<close> leaves a record whose vector is present and is not the vectorization of its
  content.
\<close>

theorem import_keeps_stale_vector:
  "\<not> vectors_fresh
     (run [Import (JsonObject
        \<lparr> snap_memories =
            Some [(''mem_1'', \<lparr> mem_id = ''mem_1'', content = ''pizza'',
                                metadata = [(''timestamp'', JDate 0)],
                                embeddings = Some [(''rocket'', 1)], tags = JArr [] \<rparr>)],
          snap_config = no_opts, snap_nextId = Some 2, exportDate = 0 \<rparr>) 1]
        (Mem0 no_opts))"
  by (simp add: run_def import_def Let_def import_entry_def Memory_def vectors_fresh_def
      vector_fresh_def computeEmbedding_pizza)

text \<open>
  C3, amended. In every store reached from a new store by \<^verbatim>\<open>add\<close>, \<^verbatim>\<open>update\<close>, \<^verbatim>\<open>delete\<close>,
  \<^verbatim>\<open>clear\<close>, the expiry sweep, and \<^verbatim>\<open>import\<close> of snapshots in which every record's vector is
  absent or is the vectorization of its content, every record's vector is absent or is the
  vectorization of its current content; and the snapshot that \<^verbatim>\<open>export\<close> makes of such a
  store is again such a snapshot.
\<close>

theorem vectors_fresh_reachable:
  assumes "list_all op_fresh ops"
  shows "vectors_fresh (run ops (Mem0 c)) \<and> snapshot_fresh (export now (run ops (Mem0 c)))"
proof -
  from assms have "vectors_fresh (run ops (Mem0 c))"
    by (rule run_fresh) (rule Mem0_fresh)
  then show ?thesis by (simp add: export_fresh)
qed

text \<open>The theorem on a sequence with a merge, an update, an import and a sweep.\<close>

theorem vectors_fresh_reachable_witness:
  "list_all op_fresh
     [Add ''pizza'' [] 0, Add ''pizza'' [] 1, Update ''mem_1'' ''rocket'' [] 2,
      Import (JsonObject
        \<lparr> snap_memories =
            Some [(''mem_1'', \<lparr> mem_id = ''mem_1'', content = ''pizza'',
                                metadata = [(''timestamp'', JDate 0)],
                                embeddings = Some [(''pizza'', 1)], tags = JArr [] \<rparr>)],
          snap_config = no_opts, snap_nextId = Some 2, exportDate = 0 \<rparr>) 3,
      Sweep 4, Delete ''mem_1'', Clear] \<and>
   vectors_fresh
     (run [Add ''pizza'' [] 0, Add ''pizza'' [] 1, Update ''mem_1'' ''rocket'' [] 2,
      Import (JsonObject
        \<lparr> snap_memories =
            Some [(''mem_1'', \<lparr> mem_id = ''mem_1'', content = ''pizza'',
                                metadata = [(''timestamp'', JDate 0)],
                                embeddings = Some [(''pizza'', 1)], tags = JArr [] \<rparr>)],
          snap_config = no_opts, snap_nextId = Some 2, exportDate = 0 \<rparr>) 3,
      Sweep 4, Delete ''mem_1'', Clear] (Mem0 no_opts))"
proof -
  have ops: "list_all op_fresh
     [Add ''pizza'' [] 0, Add ''pizza'' [] 1, Update ''mem_1'' ''rocket'' [] 2,
      Import (JsonObject
        \<lparr> snap_memories =
            Some [(''mem_1'', \<lparr> mem_id = ''mem_1'', content = ''pizza'',
                                metadata = [(''timestamp'', JDate 0)],
                                embeddings = Some [(''pizza'', 1)], tags = JArr [] \<rparr>)],
          snap_config = no_opts, snap_nextId = Some 2, exportDate = 0 \<rparr>) 3,
      Sweep 4, Delete ''mem_1'', Clear]"
    by (simp add: snapshot_fresh_def vector_fresh_def computeEmbedding_pizza)
  from ops vectors_fresh_reachable [OF ops, of no_opts 0] show ?thesis by blast
qed

section \<open>The invariant of reachable stores\<close>































section \<open>Export followed by import\<close>


section \<open>The capacity limit\<close>












lemma computeEmbedding_example:
  "computeEmbedding ''apple banana'' = [(''apple'', 1), (''banana'', 1)]"
  "computeEmbedding ''car truck'' = [(''car'', 1), (''truck'', 1)]"
  "computeEmbedding ''airplane rocket'' = [(''airplane'', 1), (''rocket'', 1)]"
  by code_simp+

lemma cosine_example:
  "cosineSimilarity [(''car'', 1), (''truck'', 1)] [(''apple'', 1), (''banana'', 1)] = 0"
  "cosineSimilarity [(''airplane'', 1), (''rocket'', 1)] [(''apple'', 1), (''banana'', 1)] = 0"
  "cosineSimilarity [(''airplane'', 1), (''rocket'', 1)] [(''car'', 1), (''truck'', 1)] = 0"
  by (simp_all add: cosineSimilarity_def cosine_sums_def cosine_step_def weight_def)

lemma string_of_nat_two: "string_of_nat (Suc (Suc 0)) = ''2''"
  by code_simp

lemma add_example_two:
  "run [Add ''apple banana'' [] 0, Add ''car truck'' [] 1] (Mem0 (limit_opts 2)) =
      \<lparr> memories =
           [(''mem_1'', \<lparr> mem_id = ''mem_1'', content = ''apple banana'',
                               metadata = [(''timestamp'', JDate 0)],
                               embeddings = Some [(''apple'', 1), (''banana'', 1)], tags = JArr [] \<rparr>),
            (''mem_2'', \<lparr> mem_id = ''mem_2'', content = ''car truck'',
                               metadata = [(''timestamp'', JDate 1)],
                               embeddings = Some [(''car'', 1), (''truck'', 1)], tags = JArr [] \<rparr>)],
        config = \<lparr> maxMemories = 2, similarityThreshold = 7 / 10,
                   autoExpire = False, expireAfterDays = 30 \<rparr>,
        nextId = 3 \<rparr>"
  by (simp add: run_def eval_defs computeEmbedding_example cosine_example Mem0_def limit_opts_def
      num_or_def string_of_nat_two)

lemma add_example_three:
  "add ''airplane rocket'' [] 2
     (run [Add ''apple banana'' [] 0, Add ''car truck'' [] 1] (Mem0 (limit_opts 2))) =
     (Inr ''mem_3'',
      \<lparr> memories =
           [(''mem_2'', \<lparr> mem_id = ''mem_2'', content = ''car truck'',
                               metadata = [(''timestamp'', JDate 1)],
                               embeddings = Some [(''car'', 1), (''truck'', 1)], tags = JArr [] \<rparr>),
            (''mem_3'', \<lparr> mem_id = ''mem_3'', content = ''airplane rocket'',
                               metadata = [(''timestamp'', JDate 2)],
                               embeddings = Some [(''airplane'', 1), (''rocket'', 1)], tags = JArr [] \<rparr>)],
        config = \<lparr> maxMemories = 2, similarityThreshold = 7 / 10,
                   autoExpire = False, expireAfterDays = 30 \<rparr>,
        nextId = 4 \<rparr>)"
  apply (simp only: add_example_two)
  apply (simp add: eval_defs computeEmbedding_example cosine_example evictOldest_def older_def)
  done




section \<open>Cosine similarity\<close>

text \<open>The three sums of the loop, and the Cauchy-Schwarz inequality for them.\<close>

lemma cosine_fold:
  "fold (cosine_step e1 e2) ks (d, a, b) =
     (d + sum_list (map (\<lambda>k. weight e1 k * weight e2 k) ks),
      a + sum_list (map (\<lambda>k. weight e1 k * weight e1 k) ks),
      b + sum_list (map (\<lambda>k. weight e2 k * weight e2 k) ks))"
  by (induction ks arbitrary: d a b) (simp_all add: cosine_step_def Let_def algebra_simps)

lemma cosine_sums_eq:
  "cosine_sums e1 e2 =
     (sum_list (map (\<lambda>k. weight e1 k * weight e2 k) (key_set (map fst e1 @ map fst e2))),
      sum_list (map (\<lambda>k. weight e1 k * weight e1 k) (key_set (map fst e1 @ map fst e2))),
      sum_list (map (\<lambda>k. weight e2 k * weight e2 k) (key_set (map fst e1 @ map fst e2))))"
  by (simp add: cosine_sums_def cosine_fold)

lemma sum_list_squares_nonneg: "0 \<le> sum_list (map (\<lambda>k. f k * f k) ks)" for f :: "'a \<Rightarrow> real"
  by (induction ks) simp_all







lemma sum_list_zero: "sum_list (map (\<lambda>k. 0::real) ks) = 0"
  by (induction ks) simp_all














section \<open>Cosine similarity in exact arithmetic\<close>

text \<open>
  C8 speaks of results that are exactly 1.0 and of \<^verbatim>\<open>cosine(a,b) == cosine(b,a)\<close>. On doubles
  both depend on rounding: \<^verbatim>\<open>Math.sqrt(3) * Math.sqrt(3)\<close> is not 3, and the two calls add the
  same products in different orders. The lemmas below are the counterparts in the exact
  arithmetic of this model, where the three statements hold; they say nothing about the
  rounded results.
\<close>

lemma set_key_set: "set (key_set ks) = set ks"
  by (induction ks rule: key_set.induct) auto

lemma distinct_key_set: "distinct (key_set ks)"
  by (induction ks rule: key_set.induct) (auto simp: set_key_set)

lemma sum_list_key_set:
  fixes f :: "string \<Rightarrow> real"
  shows "sum_list (map f (key_set ks)) = sum f (set ks)"
  using sum_list_distinct_conv_sum_set [OF distinct_key_set, of f ks]
  by (simp add: set_key_set)

lemma cosineSimilarity_sym: "cosineSimilarity e1 e2 = cosineSimilarity e2 e1"
  by (simp add: cosineSimilarity_def cosine_sums_eq sum_list_key_set Un_commute mult.commute)

lemma weight_absent: "k \<notin> fst ` set e \<Longrightarrow> weight e k = 0"
  by (simp add: weight_def map_of_eq_None_iff [THEN iffD2])

lemma cosineSimilarity_disjoint:
  assumes "fst ` set e1 \<inter> fst ` set e2 = {}"
  shows "cosineSimilarity e1 e2 = 0"
proof -
  have "weight e1 k * weight e2 k = 0" for k
    using assms weight_absent [of k e1] weight_absent [of k e2] by auto
  then have "(\<lambda>k. weight e1 k * weight e2 k) = (\<lambda>k. 0)" by (simp add: fun_eq_iff)
  then show ?thesis
    by (simp add: cosineSimilarity_def cosine_sums_eq sum_list_zero)
qed

lemma cosineSimilarity_self:
  assumes "fst (snd (cosine_sums e e)) \<noteq> 0"
  shows "cosineSimilarity e e = 1"
proof -
  let ?a = "sum_list (map (\<lambda>k. weight e k * weight e k) (key_set (map fst e @ map fst e)))"
  have "0 \<le> ?a" by (rule sum_list_squares_nonneg)
  with assms have "0 < ?a" by (simp add: cosine_sums_eq)
  then show ?thesis
    by (simp add: cosineSimilarity_def cosine_sums_eq)
qed

lemma count_token_positive:
  "list_all (\<lambda>(k, n). 0 < n) freq \<Longrightarrow> list_all (\<lambda>(k, n). 0 < n) (count_token token freq)"
  by (simp add: count_token_def list_all_update)

lemma count_token_nonempty: "count_token token freq \<noteq> []"
  by (simp add: count_token_def)

lemma fold_count_token:
  "list_all (\<lambda>(k, n). 0 < n) freq \<Longrightarrow>
   list_all (\<lambda>(k, n). 0 < n) (fold count_token tokens freq) \<and>
   (tokens \<noteq> [] \<or> freq \<noteq> [] \<longrightarrow> fold count_token tokens freq \<noteq> [])"
proof (induction tokens arbitrary: freq)
  case Nil
  then show ?case by simp
next
  case (Cons t ts)
  from Cons.prems have "list_all (\<lambda>(k, n). 0 < n) (count_token t freq)"
    by (rule count_token_positive)
  from Cons.IH [OF this] show ?case by (simp add: count_token_nonempty)
qed

lemma fold_max_positive: "0 < (m::nat) \<Longrightarrow> 0 < fold max ns m"
  by (induction ns arbitrary: m) (simp_all add: max_def)

lemma computeEmbedding_norm:
  assumes "tokenize str \<noteq> []"
  shows "fst (snd (cosine_sums (computeEmbedding str) (computeEmbedding str))) \<noteq> 0"
proof -
  let ?freq = "fold count_token (tokenize str) []"
  let ?max = "fold max (map snd ?freq) 0"
  let ?e = "computeEmbedding str"
  from fold_count_token [of "[]" "tokenize str"] assms
  have pos: "list_all (\<lambda>(k, n). 0 < n) ?freq" and ne: "?freq \<noteq> []" by simp_all
  then obtain k n rest where freq: "?freq = (k, n) # rest" and n: "0 < n"
    by (cases ?freq) auto
  have "0 < fold max (map snd rest) (max n 0)"
    using n by (intro fold_max_positive) simp
  then have max: "0 < ?max" by (simp add: freq)
  have e: "?e = (k, real n / real ?max) # map (\<lambda>(token, n). (token, real n / real ?max)) rest"
    by (simp add: computeEmbedding_def Let_def freq)
  have wk: "0 < weight ?e k"
    using n max by (simp add: e weight_def)
  let ?ks = "key_set (map fst ?e @ map fst ?e)"
  have "k \<in> set ?ks" by (simp add: set_key_set e)
  then have "weight ?e k * weight ?e k \<le> sum (\<lambda>k. weight ?e k * weight ?e k) (set ?ks)"
    by (intro member_le_sum) simp_all
  moreover have "0 < weight ?e k * weight ?e k" using wk by simp
  ultimately have "0 < sum (\<lambda>k. weight ?e k * weight ?e k) (set ?ks)" by linarith
  then have "0 < sum_list (map (\<lambda>k. weight ?e k * weight ?e k) ?ks)"
    by (simp add: sum_list_distinct_conv_sum_set [OF distinct_key_set])
  then show ?thesis by (simp add: cosine_sums_eq)
qed

lemma cosineSimilarity_text_self:
  "tokenize str \<noteq> [] \<Longrightarrow> cosineSimilarity (computeEmbedding str) (computeEmbedding str) = 1"
  by (rule cosineSimilarity_self) (rule computeEmbedding_norm)

end
